theory Spec2Isabelle
  imports Main
begin

section \<open>Values exchanged with the host\<close>

text \<open>
  The component passes values of TypeScript type \<open>any\<close> to the host. The values that
  occur are \<open>undefined\<close>, \<open>null\<close>, strings and arrays of strings
  (\<open>valueList: (string | string[] | null)[]\<close>).
\<close>

datatype jsval = JUndefined | JNull | JStr string | JList "string list"

text \<open>\<open>Array.prototype.join\<close> with the default separator, as \<open>String(array)\<close> uses it.\<close>

fun js_join :: "string list \<Rightarrow> string" where
  "js_join [] = []"
| "js_join [x] = x"
| "js_join (x # y # ys) = x @ '','' @ js_join (y # ys)"

text \<open>\<open>String(v)\<close>, the conversion that \<open>+\<close> applies to an operand next to a string.\<close>

fun js_to_string :: "jsval \<Rightarrow> string" where
  "js_to_string JUndefined = ''undefined''"
| "js_to_string JNull = ''null''"
| "js_to_string (JStr s) = s"
| "js_to_string (JList xs) = js_join xs"

text \<open>\<open>v ?? null\<close>.\<close>

fun nullish_null :: "jsval \<Rightarrow> jsval" where
  "nullish_null JUndefined = JNull"
| "nullish_null JNull = JNull"
| "nullish_null v = v"

text \<open>
  The truth value of \<open>v?.length\<close>: \<open>undefined\<close> and \<open>null\<close> have no length,
  a string and an array have one, and \<open>0\<close> is falsy.
\<close>

fun has_length :: "jsval \<Rightarrow> bool" where
  "has_length JUndefined = False"
| "has_length JNull = False"
| "has_length (JStr s) = (length s \<noteq> 0)"
| "has_length (JList xs) = (length xs \<noteq> 0)"

text \<open>
  Reading \<open>xs[i]\<close> of a JavaScript array: outside the array the read gives
  \<open>undefined\<close>.
\<close>

definition js_array_get :: "jsval list \<Rightarrow> int \<Rightarrow> jsval" where
  "js_array_get xs i =
     (if 0 \<le> i \<and> nat i < length xs then xs ! nat i else JUndefined)"

text \<open>
  The elements of a JavaScript array after \<open>xs[i] = v\<close>: inside the array the slot is
  replaced, beyond its end the array grows (the holes read \<open>undefined\<close>), and a negative
  \<open>i\<close> sets a property that is no element, so the elements stay as they are.
\<close>

definition js_array_set :: "jsval list \<Rightarrow> int \<Rightarrow> jsval \<Rightarrow> jsval list" where
  "js_array_set xs i v =
     (if i < 0 then xs
      else if nat i < length xs then xs[nat i := v]
      else xs @ replicate (nat i - length xs) JUndefined @ [v])"

section \<open>Interaction events\<close>

datatype interaction =
  Submit | Search | Reset | ButtonClick | SimpleValue | HeaderClick | FooterClick

record StreamlitReturn =
  interaction :: interaction
  ret_value :: jsval
  index :: int

section \<open>The Aggregator (\<open>SearchBoxFn\<close>)\<close>

text \<open>
  The fields of an entry of \<open>propsList\<close> that the modelled code reads.
  \<open>default_value\<close> is \<open>props.default\<close> (\<open>JUndefined\<close> when the host gave none).
\<close>

record InstanceConfig =
  is_multi :: bool
  clear_on_submit :: bool
  edit_after_submit :: string
  debounce :: int
  default_value :: jsval

text \<open>
  \<open>GlobalState\<close> is an object with a reference to an array. Arrays and state objects
  live in a store, addressed by their position, so that sharing and copying are visible:
  an allocation appends to the store.
\<close>

record GlobalState =
  action :: "StreamlitReturn option"
  valueList :: nat

record World =
  arrays :: "jsval list list"
  objs :: "GlobalState list"
  cur :: nat
  pushed :: "nat list"

text \<open>
  \<open>cur\<close> is the state object React holds; \<open>pushed\<close> lists the arguments of the calls
  of \<open>Streamlit.setComponentValue\<close>, oldest first.
\<close>

definition current :: "World \<Rightarrow> GlobalState" where
  "current w = objs w ! cur w"

definition valueList_now :: "World \<Rightarrow> jsval list" where
  "valueList_now w = arrays w ! valueList (current w)"

definition wf_world :: "World \<Rightarrow> bool" where
  "wf_world w \<longleftrightarrow> cur w < length (objs w) \<and> valueList (current w) < length (arrays w)"

text \<open>The initial state: \<open>propsList.map((props) => props.default ?? null)\<close>.\<close>

definition SearchBoxFn_init :: "InstanceConfig list \<Rightarrow> World" where
  "SearchBoxFn_init propsList =
     \<lparr>arrays = [map (\<lambda>props. nullish_null (default_value props)) propsList],
      objs = [\<lparr>action = None, valueList = 0\<rparr>],
      cur = 0,
      pushed = []\<rparr>"

text \<open>\<open>[...xs]\<close> followed by the writes to the copy: a new array in the store.\<close>

definition alloc_array :: "jsval list \<Rightarrow> World \<Rightarrow> nat \<times> World" where
  "alloc_array xs w = (length (arrays w), w\<lparr>arrays := arrays w @ [xs]\<rparr>)"

text \<open>
  The end of the updater: the object \<open>newState\<close> is new, it is handed to
  \<open>Streamlit.setComponentValue\<close> and returned to React.
\<close>

definition set_and_push :: "GlobalState \<Rightarrow> World \<Rightarrow> World" where
  "set_and_push newState w =
     w\<lparr>objs := objs w @ [newState],
       cur := length (objs w),
       pushed := pushed w @ [length (objs w)]\<rparr>"

definition streamlitReturnGlobalFn :: "StreamlitReturn \<Rightarrow> World \<Rightarrow> World" where
  "streamlitReturnGlobalFn input w =
     (let s = current w; old = arrays w ! valueList s in
      if interaction input = Submit \<or> interaction input = SimpleValue then
        (let (a, w1) = alloc_array (js_array_set old (index input) (ret_value input)) w
         in set_and_push \<lparr>action = Some input, valueList = a\<rparr> w1)
      else if interaction input = Reset then
        (let newValue = (if has_length (js_array_get old (index input))
                         then JList [] else JNull);
             (a, w1) = alloc_array (js_array_set old (index input) newValue) w
         in set_and_push \<lparr>action = Some input, valueList = a\<rparr> w1)
      else set_and_push \<lparr>action = Some input, valueList = valueList s\<rparr> w)"

text \<open>\<open>SearchBoxFnRenderer\<close> tags what instance \<open>index\<close> emits with its position.\<close>

definition SearchBoxFnRenderer_return :: "nat \<Rightarrow> interaction \<times> jsval \<Rightarrow> StreamlitReturn" where
  "SearchBoxFnRenderer_return i e =
     \<lparr>interaction = fst e, ret_value = snd e, index = int i\<rparr>"

definition onHeaderClick :: "jsval \<Rightarrow> World \<Rightarrow> World" where
  "onHeaderClick target_id w =
     streamlitReturnGlobalFn
       \<lparr>interaction = HeaderClick, ret_value = target_id, index = - 1\<rparr> w"

definition onFooterClick :: "jsval \<Rightarrow> World \<Rightarrow> World" where
  "onFooterClick target_id w =
     streamlitReturnGlobalFn
       \<lparr>interaction = FooterClick, ret_value = target_id, index = - 1\<rparr> w"

section \<open>The Instance Controller (\<open>SingleSearchBox\<close>)\<close>

record Option =
  opt_value :: string
  label :: string

text \<open>
  What the select control hands to \<open>onChange\<close> as \<open>option\<close>: \<open>null\<close>, one option,
  or (when \<open>isMulti\<close> is set) the array of the selected options, which the code reads
  through the cast \<open>option as any as Option[]\<close>.
\<close>

datatype selection = NoOption | One Option | Many "Option list"

record State =
  menu :: bool
  selectedOption :: selection
  selectedOptionList :: "Option list"
  inputValue :: jsval

record Timeout =
  timer_id :: nat
  createdAt :: int

record SearchUpdate =
  last_value :: string
  timeout :: Timeout

datatype js_error = TypeError

text \<open>
  \<open>lastSearchUpdate\<close> is a ref object made by \<open>React.createRef()\<close> in the body of
  \<open>SingleSearchBox\<close>, and \<open>callbackSearch\<close> and the timer callback it schedules close
  over it. Ref objects live in a store of cells, addressed by position; a closure's ref is
  the address it was built with, so that which keystrokes share a cell is visible.
\<close>

record Timer =
  handle :: nat
  due :: int
  cell :: nat

text \<open>
  The controller: its React state, the store of ref cells, \<open>eventFired.current\<close> as last
  written, the pending timers of the event loop (handle, due time in milliseconds, the ref
  the callback closes over), the next free timer handle, and the calls of
  \<open>streamlitReturnFn\<close> made so far, oldest first.
\<close>

record Controller =
  state :: State
  refs :: "SearchUpdate option list"
  eventFired :: "interaction option"
  timers :: "Timer list"
  nextTimer :: nat
  emitted :: "(interaction \<times> jsval) list"

text \<open>\<open>React.createRef()\<close>: a new cell, whose \<open>current\<close> is \<open>null\<close>.\<close>

definition createRef :: "Controller \<Rightarrow> nat \<times> Controller" where
  "createRef c = (length (refs c), c\<lparr>refs := refs c @ [None]\<rparr>)"

definition ref_current :: "Controller \<Rightarrow> nat \<Rightarrow> SearchUpdate option" where
  "ref_current c r = (if r < length (refs c) then refs c ! r else None)"

text \<open>The controller after the first render: ref 0 is its \<open>lastSearchUpdate\<close>.\<close>

definition Controller_init :: "State \<Rightarrow> Controller" where
  "Controller_init s =
     \<lparr>state = s, refs = [None], eventFired = None,
      timers = [], nextTimer = 0, emitted = []\<rparr>"

definition streamlitReturnFn :: "interaction \<Rightarrow> jsval \<Rightarrow> Controller \<Rightarrow> Controller" where
  "streamlitReturnFn i v c = c\<lparr>emitted := emitted c @ [(i, v)]\<rparr>"

text \<open>
  The delay a timer really waits: the runtime keeps it in a signed 32-bit field, a delay
  above \<open>2^31 - 1\<close> is replaced by 1 ms, and a negative delay counts as 0.
\<close>

definition timer_delay :: "int \<Rightarrow> int" where
  "timer_delay delay = (if delay > 2147483647 then 1 else max 0 delay)"

text \<open>
  \<open>setTimeout(f, delay)\<close> at time \<open>now\<close>, for the callback \<open>f\<close> of \<open>callbackSearch\<close>
  that closes over the ref \<open>r\<close>.
\<close>

definition set_timeout :: "int \<Rightarrow> int \<Rightarrow> nat \<Rightarrow> Controller \<Rightarrow> nat \<times> Controller" where
  "set_timeout now delay r c =
     (nextTimer c,
      c\<lparr>timers := timers c @
              [\<lparr>handle = nextTimer c, due = now + timer_delay delay, cell = r\<rparr>],
        nextTimer := Suc (nextTimer c)\<rparr>)"

definition clear_timeout :: "nat \<Rightarrow> Controller \<Rightarrow> Controller" where
  "clear_timeout i c = c\<lparr>timers := filter (\<lambda>t. handle t \<noteq> i) (timers c)\<rparr>"

text \<open>
  The timer callback of \<open>callbackSearch\<close>:
  \<open>streamlitReturnFn("search", lastSearchUpdate.current?.value)\<close>, text read when it runs.
\<close>

definition search_timer_fires :: "nat \<Rightarrow> Controller \<Rightarrow> Controller" where
  "search_timer_fires r c =
     streamlitReturnFn Search
       (case ref_current c r of None \<Rightarrow> JUndefined | Some u \<Rightarrow> JStr (last_value u)) c"

text \<open>The event loop at time \<open>now\<close>: every pending timer that is due runs and is gone.\<close>

definition fire_due :: "int \<Rightarrow> Controller \<Rightarrow> Controller" where
  "fire_due now c =
     fold (\<lambda>t. search_timer_fires (cell t)) (filter (\<lambda>t. due t \<le> now) (timers c))
       (c\<lparr>timers := filter (\<lambda>t. \<not> due t \<le> now) (timers c)\<rparr>)"

text \<open>The branch \<open>if (resetTimeout)\<close> of \<open>callbackSearch\<close>.\<close>

definition new_timeout :: "nat \<Rightarrow> int \<Rightarrow> int \<Rightarrow> Controller \<Rightarrow> Timeout \<times> Controller" where
  "new_timeout r debounce_ms now c =
     (let (i, c1) = set_timeout now debounce_ms r c
      in (\<lparr>timer_id = i, createdAt = now\<rparr>, c1))"

text \<open>\<open>callbackSearch\<close>, built with the ref \<open>lastSearchUpdate\<close>, at time \<open>now\<close>.\<close>

definition callbackSearch :: "nat \<Rightarrow> string \<Rightarrow> int \<Rightarrow> int \<Rightarrow> Controller \<Rightarrow> Controller" where
  "callbackSearch lastSearchUpdate input debounce_ms now c =
     (let (newTimeout, c1) =
        (case ref_current c lastSearchUpdate of
           None \<Rightarrow> new_timeout lastSearchUpdate debounce_ms now c
         | Some u \<Rightarrow>
             if now - createdAt (timeout u) > debounce_ms - 10
             then new_timeout lastSearchUpdate debounce_ms now
                    (clear_timeout (timer_id (timeout u)) c)
             else (timeout u, c));
          s = state c1
      in c1\<lparr>refs := (refs c1)[lastSearchUpdate :=
                       Some \<lparr>last_value = input, timeout = newTimeout\<rparr>],
            state := \<lparr>menu = menu s, selectedOption = NoOption,
                      selectedOptionList = selectedOptionList s,
                      inputValue = JStr input\<rparr>\<rparr>)"

definition callbackReset :: "Controller \<Rightarrow> Controller" where
  "callbackReset c =
     (let c1 = streamlitReturnFn Reset (JStr []) c
      in c1\<lparr>state := \<lparr>menu = False, selectedOption = NoOption,
                      selectedOptionList = [], inputValue = JStr []\<rparr>\<rparr>)"

text \<open>\<open>option.label\<close> for an \<open>option\<close> that is not \<open>null\<close>: an array has no such property.\<close>

fun option_label :: "selection \<Rightarrow> jsval" where
  "option_label (One opt) = JStr (label opt)"
| "option_label (Many opts) = JUndefined"
| "option_label NoOption = JUndefined"

text \<open>
  The first statement of the updater in \<open>callbackSubmit\<close>: the value of the submit event.
  \<open>map\<close> exists on arrays only, and reading a property of \<open>null\<close> throws.
\<close>

fun submit_value :: "bool \<Rightarrow> selection \<Rightarrow> js_error + jsval" where
  "submit_value True (Many opts) = Inr (JList (map label opts))"
| "submit_value True (One opt) = Inl TypeError"
| "submit_value True NoOption = Inl TypeError"
| "submit_value False NoOption = Inl TypeError"
| "submit_value False option = Inr (option_label option)"

text \<open>
  \<open>is_multi ? (option as any as Option[]) : s.selectedOptionList\<close>; with \<open>is_multi\<close>
  the updater has got past \<open>map\<close>, so \<open>option\<close> is an array.
\<close>

fun submit_list :: "bool \<Rightarrow> selection \<Rightarrow> Option list \<Rightarrow> Option list" where
  "submit_list True (Many opts) old = opts"
| "submit_list True option old = []"
| "submit_list False option old = old"

text \<open>
  \<open>let input = ""\<close> and the \<open>switch (edit_after_submit)\<close> of \<open>callbackSubmit\<close>;
  \<open>+\<close> next to the string \<open>" "\<close> concatenates strings.
\<close>

definition edited_input :: "string \<Rightarrow> selection \<Rightarrow> State \<Rightarrow> jsval" where
  "edited_input mode option s =
     (if mode = ''current'' then inputValue s
      else if mode = ''option'' then option_label option
      else if mode = ''concat''
      then JStr (js_to_string (inputValue s) @ '' '' @ js_to_string (option_label option))
      else JStr [])"

definition callbackSubmit :: "InstanceConfig \<Rightarrow> selection \<Rightarrow> Controller \<Rightarrow> js_error + Controller" where
  "callbackSubmit args option c =
     (case submit_value (is_multi args) option of
        Inl e \<Rightarrow> Inl e
      | Inr v \<Rightarrow>
          (let s = state c;
               c1 = streamlitReturnFn Submit v c;
               input = edited_input (edit_after_submit args) option s
           in Inr (c1\<lparr>state :=
                \<lparr>menu = (if clear_on_submit args then False else True),
                 selectedOption = option,
                 selectedOptionList = submit_list (is_multi args) option (selectedOptionList s),
                 inputValue =
                   (if clear_on_submit args \<and> is_multi args then JStr [] else input)\<rparr>\<rparr>)))"

text \<open>The \<open>action\<close> of the select control's \<open>onChange\<close> and \<open>onInputChange\<close>.\<close>

datatype change_action =
  SelectOption | DeselectOption | RemoveValue | PopValue | Clear | CreateOption

datatype input_action = InputChange | SetValue | InputBlur | MenuClose

definition onSelectChange ::
  "InstanceConfig \<Rightarrow> selection \<Rightarrow> change_action \<Rightarrow> Controller \<Rightarrow> js_error + Controller" where
  "onSelectChange args option a c =
     (case a of
        SelectOption \<Rightarrow> callbackSubmit args option (c\<lparr>eventFired := Some Submit\<rparr>)
      | RemoveValue \<Rightarrow>
          if \<not> is_multi args then Inr c
          else callbackSubmit args option (c\<lparr>eventFired := Some Submit\<rparr>)
      | Clear \<Rightarrow> Inr (callbackReset (c\<lparr>eventFired := Some Reset\<rparr>))
      | _ \<Rightarrow> Inr c)"

text \<open>\<open>onSelectInputChange\<close>, built with the \<open>callbackSearch\<close> of the ref \<open>r\<close>.\<close>

definition onSelectInputChange ::
  "InstanceConfig \<Rightarrow> nat \<Rightarrow> string \<Rightarrow> input_action \<Rightarrow> int \<Rightarrow> Controller \<Rightarrow> Controller" where
  "onSelectInputChange args r input a now c =
     (case a of
        InputChange \<Rightarrow>
          callbackSearch r input (debounce args) now (c\<lparr>eventFired := Some Search\<rparr>)
      | _ \<Rightarrow> c)"

text \<open>
  Keystrokes \<open>(time, text)\<close> in the order they happen. Before a keystroke is handled,
  the event loop has run the timers due by then. Every keystroke sets the React state, so
  the component is rendered again after it: the body of \<open>SingleSearchBox\<close> runs
  \<open>React.createRef()\<close> again, and the next keystroke meets the handler built with the
  new ref. The first keystroke meets the handler of the ref \<open>r\<close>.
\<close>

fun type_keys_rendered ::
  "InstanceConfig \<Rightarrow> nat \<Rightarrow> (int \<times> string) list \<Rightarrow> Controller \<Rightarrow> Controller" where
  "type_keys_rendered args r [] c = c"
| "type_keys_rendered args r ((now, input) # ks) c =
     (let c1 = onSelectInputChange args r input InputChange now (fire_due now c);
          (r1, c2) = createRef c1
      in type_keys_rendered args r1 ks c2)"

text \<open>Each keystroke comes less than \<open>d\<close> milliseconds after the one before it.\<close>

fun gaps_below :: "int \<Rightarrow> (int \<times> string) list \<Rightarrow> bool" where
  "gaps_below d (k1 # k2 # ks) =
     (fst k1 \<le> fst k2 \<and> fst k2 - fst k1 < d \<and> gaps_below d (k2 # ks))"
| "gaps_below d ks = True"

text \<open>
  The shape of a slot that goes with a multiplicity flag: a list of strings for a
  multi-select instance, a string or \<open>null\<close> for a single-select one.
\<close>

fun shape_matches :: "bool \<Rightarrow> jsval \<Rightarrow> bool" where
  "shape_matches True (JList xs) = True"
| "shape_matches True v = False"
| "shape_matches False (JStr s) = True"
| "shape_matches False JNull = True"
| "shape_matches False v = False"

text \<open>
  What a slot may hold: a value of the shape of its instance, \<open>null\<close>, and, where a reset
  may have been processed, the empty list.
\<close>

definition slot_allowed :: "bool \<Rightarrow> bool \<Rightarrow> jsval \<Rightarrow> bool" where
  "slot_allowed after_reset multi v \<longleftrightarrow>
     shape_matches multi v \<or> v = JNull \<or> (after_reset \<and> v = JList [])"

definition slots_allowed :: "bool \<Rightarrow> InstanceConfig list \<Rightarrow> jsval list \<Rightarrow> bool" where
  "slots_allowed after_reset propsList vs \<longleftrightarrow>
     list_all2 (\<lambda>props v. slot_allowed after_reset (is_multi props) v) propsList vs"

text \<open>The host's defaults: absent, \<open>null\<close>, or of the shape of the instance.\<close>

definition defaults_shaped :: "InstanceConfig list \<Rightarrow> bool" where
  "defaults_shaped propsList \<longleftrightarrow>
     list_all (\<lambda>props. slot_allowed False (is_multi props)
                  (nullish_null (default_value props))) propsList"

text \<open>
  An event as the instances, the header and the footer emit it: its index is the position
  of an instance or \<open>-1\<close>, and a submit or simple-value event of an instance carries a
  value of the shape of that instance.
\<close>

definition event_shaped :: "InstanceConfig list \<Rightarrow> StreamlitReturn \<Rightarrow> bool" where
  "event_shaped propsList e \<longleftrightarrow>
     index e < int (length propsList) \<and>
     (if (interaction e = Submit \<or> interaction e = SimpleValue) \<and> 0 \<le> index e
      then shape_matches (is_multi (propsList ! nat (index e))) (ret_value e)
      else True)"

text \<open>
  What the select control delivers for a multiplicity flag: an array when \<open>isMulti\<close> is
  set, one option otherwise.
\<close>

fun delivered :: "bool \<Rightarrow> selection \<Rightarrow> bool" where
  "delivered True (Many opts) = True"
| "delivered False (One opt) = True"
| "delivered multi option = False"

subsection \<open>Sample configurations\<close>

definition sample_single :: InstanceConfig where
  "sample_single =
     \<lparr>is_multi = False, clear_on_submit = True, edit_after_submit = ''concat'',
      debounce = 100, default_value = JUndefined\<rparr>"

definition sample_multi :: InstanceConfig where
  "sample_multi =
     \<lparr>is_multi = True, clear_on_submit = False, edit_after_submit = ''option'',
      debounce = 0, default_value = JUndefined\<rparr>"

definition sample_bar :: Option where
  "sample_bar = \<lparr>opt_value = ''x'', label = ''Bar''\<rparr>"

definition sample_baz :: Option where
  "sample_baz = \<lparr>opt_value = ''y'', label = ''Baz''\<rparr>"

definition idle :: State where
  "idle = \<lparr>menu = False, selectedOption = NoOption, selectedOptionList = [],
           inputValue = JStr []\<rparr>"

definition sample_event :: "interaction \<Rightarrow> jsval \<Rightarrow> int \<Rightarrow> StreamlitReturn" where
  "sample_event k v i = \<lparr>interaction = k, ret_value = v, index = i\<rparr>"

section \<open>Properties of the Aggregator\<close>

lemma length_js_array_set:
  "i < int (length xs) \<Longrightarrow> length (js_array_set xs i v) = length xs"
  by (auto simp: js_array_set_def)

lemma wf_world_init: "wf_world (SearchBoxFn_init propsList)"
  by (simp add: wf_world_def SearchBoxFn_init_def current_def)

lemma valueList_now_init:
  "valueList_now (SearchBoxFn_init propsList) =
     map (\<lambda>props. nullish_null (default_value props)) propsList"
  by (simp add: valueList_now_def SearchBoxFn_init_def current_def)

lemma current_set_and_push: "current (set_and_push ns w) = ns"
  by (simp add: current_def set_and_push_def)

lemma arrays_set_and_push: "arrays (set_and_push ns w) = arrays w"
  by (simp add: set_and_push_def)

lemma wf_world_step: "wf_world w \<Longrightarrow> wf_world (streamlitReturnGlobalFn input w)"
  by (simp add: wf_world_def streamlitReturnGlobalFn_def Let_def alloc_array_def
      current_set_and_push arrays_set_and_push)
    (simp add: set_and_push_def)

lemma valueList_now_step:
  "wf_world w \<Longrightarrow>
   valueList_now (streamlitReturnGlobalFn input w) =
     (if interaction input = Submit \<or> interaction input = SimpleValue
      then js_array_set (valueList_now w) (index input) (ret_value input)
      else if interaction input = Reset
      then js_array_set (valueList_now w) (index input)
             (if has_length (js_array_get (valueList_now w) (index input))
              then JList [] else JNull)
      else valueList_now w)"
  by (simp add: wf_world_def valueList_now_def streamlitReturnGlobalFn_def Let_def
      alloc_array_def current_set_and_push arrays_set_and_push nth_append)

lemma run_invariant:
  assumes "\<forall>e \<in> set es. index e < int n" and "wf_world w"
    and "length (valueList_now w) = n"
  shows "wf_world (fold streamlitReturnGlobalFn es w) \<and>
         length (valueList_now (fold streamlitReturnGlobalFn es w)) = n"
  using assms
proof (induction es arbitrary: w)
  case Nil
  then show ?case by simp
next
  case (Cons e es)
  let ?w = "streamlitReturnGlobalFn e w"
  from Cons.prems have e: "index e < int (length (valueList_now w))" by simp
  have "wf_world ?w" using Cons.prems(2) by (rule wf_world_step)
  moreover have "length (valueList_now ?w) = n"
    using Cons.prems(2,3) e by (simp add: valueList_now_step length_js_array_set)
  moreover have "\<forall>e \<in> set es. index e < int n" using Cons.prems(1) by simp
  ultimately show ?case using Cons.IH [of ?w] by simp
qed

text \<open>
  Claim C1. Start from the state that \<open>SearchBoxFn\<close> builds for a list of \<open>N\<close>
  configured instances (\<open>N\<close> may be 0) and let the Aggregator process any sequence of
  events that its instances and its header and footer emit, that is, events whose index
  is the position of an instance or \<open>-1\<close>: the value list then has length \<open>N\<close>.
\<close>

theorem valueList_length_invariant:
  assumes "\<forall>e \<in> set es. index e < int (length propsList)"
  shows "length (valueList_now (fold streamlitReturnGlobalFn es (SearchBoxFn_init propsList)))
           = length propsList"
  using run_invariant [OF assms wf_world_init] by (simp add: valueList_now_init)

theorem valueList_length_invariant_witness:
  "length (valueList_now (fold streamlitReturnGlobalFn
       [sample_event Submit (JStr ''Bar'') 0, sample_event Reset (JStr []) 1,
        sample_event HeaderClick JUndefined (- 1)]
       (SearchBoxFn_init [sample_single, sample_multi])))
     = 2"
proof -
  have h: "\<forall>e \<in> set [sample_event Submit (JStr ''Bar'') 0, sample_event Reset (JStr []) 1,
                 sample_event HeaderClick JUndefined (- 1)].
      index e < int (length [sample_single, sample_multi])"
    by (simp add: sample_event_def)
  show ?thesis using valueList_length_invariant [OF h] by simp
qed

text \<open>
  Claim C5. When the Aggregator processes a reset event for the index \<open>i\<close> of a slot,
  slot \<open>i\<close> of the new value list is the empty list if the slot's value had a nonzero
  length and \<open>null\<close> otherwise, and every other slot keeps its value.
\<close>

theorem reset_toggles_slot:
  assumes "wf_world w" and "interaction input = Reset"
    and "0 \<le> index input" and "index input < int (length (valueList_now w))"
  shows "valueList_now (streamlitReturnGlobalFn input w) =
           (valueList_now w)
             [nat (index input) :=
                (if has_length (valueList_now w ! nat (index input)) then JList [] else JNull)]"
proof -
  from assms(3,4) have "nat (index input) < length (valueList_now w)" by simp
  with assms show ?thesis
    by (simp add: valueList_now_step js_array_set_def js_array_get_def)
qed

theorem reset_toggles_slot_witness:
  "valueList_now (streamlitReturnGlobalFn (sample_event Reset (JStr []) 1)
      (SearchBoxFn_init [sample_single, sample_multi\<lparr>default_value := JList [''Bar'']\<rparr>,
                         sample_single\<lparr>default_value := JStr ''Baz''\<rparr>]))
     = [JNull, JList [], JStr ''Baz'']"
  using reset_toggles_slot
    [of "SearchBoxFn_init [sample_single, sample_multi\<lparr>default_value := JList [''Bar'']\<rparr>,
                           sample_single\<lparr>default_value := JStr ''Baz''\<rparr>]"
        "sample_event Reset (JStr []) 1"]
  by (simp add: wf_world_init valueList_now_init sample_event_def sample_single_def
      sample_multi_def)

text \<open>
  Claim C8. For every event the Aggregator builds one new state object, whose action is
  the event, leaves every state object and every array that existed before as it was
  (so the value list pushed earlier is not written to), and calls the host's set-value
  operation exactly once, with the new object.
\<close>

theorem one_new_value_pushed_once:
  "objs (streamlitReturnGlobalFn input w) =
     objs w @ [current (streamlitReturnGlobalFn input w)] \<and>
   cur (streamlitReturnGlobalFn input w) = length (objs w) \<and>
   take (length (arrays w)) (arrays (streamlitReturnGlobalFn input w)) = arrays w \<and>
   pushed (streamlitReturnGlobalFn input w) =
     pushed w @ [cur (streamlitReturnGlobalFn input w)] \<and>
   action (current (streamlitReturnGlobalFn input w)) = Some input"
  by (simp add: streamlitReturnGlobalFn_def Let_def alloc_array_def current_set_and_push)
    (simp add: set_and_push_def)

text \<open>
  Claim C10. An event of kind search, button-click, header-click or footer-click changes
  no slot of the value list: the new state refers to the same array, no array of the
  store changes, and only the last action is new. So do the header and footer handlers.
\<close>

theorem other_events_keep_slots:
  assumes "interaction input \<in> {Search, ButtonClick, HeaderClick, FooterClick}"
  shows "valueList (current (streamlitReturnGlobalFn input w)) = valueList (current w) \<and>
         arrays (streamlitReturnGlobalFn input w) = arrays w \<and>
         valueList_now (streamlitReturnGlobalFn input w) = valueList_now w \<and>
         action (current (streamlitReturnGlobalFn input w)) = Some input \<and>
         valueList_now (onHeaderClick target_id w) = valueList_now w \<and>
         valueList_now (onFooterClick target_id w) = valueList_now w"
proof -
  have keep: "valueList (current (streamlitReturnGlobalFn e w)) = valueList (current w) \<and>
         arrays (streamlitReturnGlobalFn e w) = arrays w \<and>
         action (current (streamlitReturnGlobalFn e w)) = Some e"
    if "interaction e \<in> {Search, ButtonClick, HeaderClick, FooterClick}" for e
    using that
    by (auto simp: streamlitReturnGlobalFn_def Let_def current_set_and_push
        arrays_set_and_push)
  have now: "valueList_now (streamlitReturnGlobalFn e w) = valueList_now w"
    if "interaction e \<in> {Search, ButtonClick, HeaderClick, FooterClick}" for e
    using keep [OF that] by (simp add: valueList_now_def)
  show ?thesis
    using keep [OF assms] now [OF assms]
      now [of "\<lparr>interaction = HeaderClick, ret_value = target_id, index = - 1\<rparr>"]
      now [of "\<lparr>interaction = FooterClick, ret_value = target_id, index = - 1\<rparr>"]
    by (simp add: onHeaderClick_def onFooterClick_def)
qed

theorem other_events_keep_slots_witness:
  "interaction (sample_event Search (JStr ''ab'') 0)
     \<in> {Search, ButtonClick, HeaderClick, FooterClick} \<and>
   valueList_now (streamlitReturnGlobalFn (sample_event Search (JStr ''ab'') 0)
       (SearchBoxFn_init [sample_single, sample_multi])) = [JNull, JNull]"
proof -
  have h: "interaction (sample_event Search (JStr ''ab'') 0)
     \<in> {Search, ButtonClick, HeaderClick, FooterClick}"
    by (simp add: sample_event_def)
  show ?thesis
    using h other_events_keep_slots [OF h, of "SearchBoxFn_init [sample_single, sample_multi]"]
    by (simp add: valueList_now_init sample_single_def sample_multi_def)
qed

section \<open>Properties of the Instance Controller\<close>

text \<open>
  Claim C7. Clearing the control emits exactly one reset event, carrying the empty string,
  and leaves the local state with no text, no selection (single and multi) and the menu
  closed.
\<close>

theorem clear_emits_reset_and_idles:
  "emitted (callbackReset c) = emitted c @ [(Reset, JStr [])] \<and>
   state (callbackReset c) =
     \<lparr>menu = False, selectedOption = NoOption, selectedOptionList = [],
      inputValue = JStr []\<rparr> \<and>
   map_sum id emitted (onSelectChange args option Clear c) =
     Inr (emitted c @ [(Reset, JStr [])]) \<and>
   map_sum id state (onSelectChange args option Clear c) =
     Inr \<lparr>menu = False, selectedOption = NoOption, selectedOptionList = [],
          inputValue = JStr []\<rparr>"
  by (simp add: onSelectChange_def callbackReset_def streamlitReturnFn_def Let_def)

text \<open>
  Claim C9. A search keystroke sets the input text to the typed text and the single-mode
  selection to \<open>null\<close>; the multi-mode selection list and the menu flag stay as they were.
\<close>

theorem search_sets_text_and_clears_single:
  "inputValue (state (callbackSearch r input d now c)) = JStr input \<and>
   selectedOption (state (callbackSearch r input d now c)) = NoOption \<and>
   selectedOptionList (state (callbackSearch r input d now c)) = selectedOptionList (state c) \<and>
   menu (state (callbackSearch r input d now c)) = menu (state c) \<and>
   state (onSelectInputChange args r input InputChange now c) =
     (state c)\<lparr>inputValue := JStr input, selectedOption := NoOption\<rparr>"
  by (simp add: onSelectInputChange_def callbackSearch_def new_timeout_def set_timeout_def
      clear_timeout_def Let_def split: option.split)

text \<open>
  Claim C6. Selecting an option commits one submit event: in single-select mode its value
  is the label of the selected option, in multi-select mode it is the list of the labels
  of the selected options, in their order.
\<close>

theorem select_emits_submit:
  "(\<not> is_multi args \<longrightarrow>
      map_sum id emitted (onSelectChange args (One opt) SelectOption c) =
        Inr (emitted c @ [(Submit, JStr (label opt))])) \<and>
   (is_multi args \<longrightarrow>
      map_sum id emitted (onSelectChange args (Many opts) SelectOption c) =
        Inr (emitted c @ [(Submit, JList (map label opts))]))"
  by (simp add: onSelectChange_def callbackSubmit_def streamlitReturnFn_def Let_def)

theorem select_emits_submit_witness:
  "map_sum id emitted
     (onSelectChange sample_single (One sample_bar) SelectOption (Controller_init idle)) =
     Inr [(Submit, JStr ''Bar'')] \<and>
   map_sum id emitted
     (onSelectChange sample_multi (Many [sample_bar, sample_baz]) SelectOption
        (Controller_init idle)) =
     Inr [(Submit, JList [''Bar'', ''Baz''])]"
  using select_emits_submit [of sample_single sample_bar "Controller_init idle"]
    select_emits_submit [of sample_multi _ _ "[sample_bar, sample_baz]"]
  by (simp add: sample_single_def sample_multi_def sample_bar_def sample_baz_def
      Controller_init_def)

subsection \<open>Submit with the submit-clear flag\<close>

text \<open>
  With submit-clear set, single-select and edit mode \<open>concat\<close>: after typing \<open>foo\<close> and
  selecting the option labelled \<open>Bar\<close> the text is \<open>foo Bar\<close> and the option stays
  selected; only the menu is closed.
\<close>

theorem clear_on_submit_counterexample:
  "clear_on_submit sample_single \<and> \<not> is_multi sample_single \<and>
   edit_after_submit sample_single = ''concat'' \<and>
   map_sum id state
     (onSelectChange sample_single (One sample_bar) SelectOption
        (onSelectInputChange sample_single 0 ''foo'' InputChange 0 (Controller_init idle))) =
     Inr \<lparr>menu = False, selectedOption = One sample_bar, selectedOptionList = [],
          inputValue = JStr ''foo Bar''\<rparr>"
  by (simp add: sample_single_def sample_bar_def idle_def Controller_init_def
      onSelectChange_def callbackSubmit_def streamlitReturnFn_def edited_input_def
      onSelectInputChange_def callbackSearch_def new_timeout_def set_timeout_def
      timer_delay_def ref_current_def Let_def)

text \<open>
  Claim C3, as the code has it. Whenever the submit-clear flag is set, a committed submit
  closes the menu and stores the submitted selection: \<open>selectedOption\<close> is what was
  submitted, \<open>selectedOptionList\<close> is the submitted list for a multi-select instance and
  stays as it was for a single-select one. The text is reset to the empty string,
  whatever the edit mode, when the instance is multi-select, and is the text that the
  edit mode gives when it is single-select.
\<close>

theorem clear_on_submit_closes_menu:
  assumes "clear_on_submit args" and "callbackSubmit args option c = Inr c'"
  shows "menu (state c') = False \<and>
         selectedOption (state c') = option \<and>
         (is_multi args \<longrightarrow> option = Many (selectedOptionList (state c'))) \<and>
         (\<not> is_multi args \<longrightarrow> selectedOptionList (state c') = selectedOptionList (state c)) \<and>
         inputValue (state c') =
           (if is_multi args then JStr []
            else edited_input (edit_after_submit args) option (state c))"
proof (cases "is_multi args")
  case True
  with assms(2) obtain opts where "option = Many opts"
    by (cases option) (simp_all add: callbackSubmit_def)
  with True assms show ?thesis
    by (auto simp: callbackSubmit_def streamlitReturnFn_def Let_def)
next
  case False
  with assms show ?thesis
    by (auto simp: callbackSubmit_def streamlitReturnFn_def Let_def split: sum.splits)
qed

theorem clear_on_submit_closes_menu_witness:
  "inputValue (state (projr (callbackSubmit (sample_multi\<lparr>clear_on_submit := True\<rparr>)
       (Many [sample_bar, sample_baz]) (Controller_init idle)))) = JStr [] \<and>
   menu (state (projr (callbackSubmit (sample_multi\<lparr>clear_on_submit := True\<rparr>)
       (Many [sample_bar, sample_baz]) (Controller_init idle)))) = False \<and>
   selectedOptionList (state (projr (callbackSubmit (sample_multi\<lparr>clear_on_submit := True\<rparr>)
       (Many [sample_bar, sample_baz]) (Controller_init idle)))) = [sample_bar, sample_baz] \<and>
   selectedOption (state (projr (callbackSubmit (sample_multi\<lparr>clear_on_submit := True\<rparr>)
       (Many [sample_bar, sample_baz]) (Controller_init idle)))) =
     Many [sample_bar, sample_baz]"
proof -
  let ?r = "callbackSubmit (sample_multi\<lparr>clear_on_submit := True\<rparr>)
       (Many [sample_bar, sample_baz]) (Controller_init idle)"
  have r: "?r = Inr (projr ?r)"
    by (simp add: callbackSubmit_def sample_multi_def Let_def)
  have h: "clear_on_submit (sample_multi\<lparr>clear_on_submit := True\<rparr>)" by simp
  show ?thesis
    using clear_on_submit_closes_menu [OF h r] by (simp add: sample_multi_def)
qed

subsection \<open>The shape of a slot\<close>

text \<open>
  A multi-select instance without a default holds \<open>null\<close> after a search event, and a
  single-select instance holds the empty list after a submit of \<open>Bar\<close> and a reset.
\<close>

theorem slot_shape_counterexample:
  "is_multi sample_multi \<and>
   valueList_now (streamlitReturnGlobalFn (sample_event Search (JStr ''a'') 0)
       (SearchBoxFn_init [sample_multi])) = [JNull] \<and>
   \<not> shape_matches (is_multi sample_multi) JNull \<and>
   \<not> is_multi sample_single \<and>
   valueList_now (fold streamlitReturnGlobalFn
       [sample_event Submit (JStr ''Bar'') 0, sample_event Reset (JStr []) 0]
       (SearchBoxFn_init [sample_single])) = [JList []] \<and>
   \<not> shape_matches (is_multi sample_single) (JList [])"
  by (simp add: sample_multi_def sample_single_def sample_event_def SearchBoxFn_init_def
      streamlitReturnGlobalFn_def valueList_now_def current_def set_and_push_def
      alloc_array_def js_array_set_def js_array_get_def Let_def)

lemma slot_allowed_weaken:
  "slots_allowed False ps vs \<Longrightarrow> slots_allowed b ps vs"
  by (auto simp: slots_allowed_def slot_allowed_def elim: list_all2_mono)

lemma slots_allowed_update:
  assumes "slots_allowed b ps vs" and "i < length ps"
    and "slot_allowed b (is_multi (ps ! i)) v"
  shows "slots_allowed b ps (vs[i := v])"
proof -
  have "list_all2 (\<lambda>props v. slot_allowed b (is_multi props) v) (ps[i := ps ! i]) (vs[i := v])"
    using assms(1,3) unfolding slots_allowed_def by (rule list_all2_update_cong)
  then show ?thesis by (simp add: slots_allowed_def)
qed

lemma slots_allowed_step:
  assumes "wf_world w" and "slots_allowed b ps (valueList_now w)"
    and "event_shaped ps e" and "b \<or> interaction e \<noteq> Reset"
  shows "slots_allowed b ps (valueList_now (streamlitReturnGlobalFn e w))"
proof -
  from assms(2) have len: "length (valueList_now w) = length ps"
    by (simp add: slots_allowed_def list_all2_lengthD)
  from assms(3) have lt: "index e < int (length ps)"
    by (simp add: event_shaped_def)
  show ?thesis
  proof (cases "index e < 0")
    case True
    with assms(1,2) show ?thesis
      by (simp add: valueList_now_step js_array_set_def)
  next
    case False
    with lt have i: "nat (index e) < length ps" by simp
    show ?thesis
    proof (cases "interaction e = Submit \<or> interaction e = SimpleValue")
      case True
      with assms(3) False
      have "shape_matches (is_multi (ps ! nat (index e))) (ret_value e)"
        by (simp add: event_shaped_def)
      then have "slot_allowed b (is_multi (ps ! nat (index e))) (ret_value e)"
        by (simp add: slot_allowed_def)
      from slots_allowed_update [OF assms(2) i this] True False i len assms(1)
      show ?thesis
        by (simp add: valueList_now_step js_array_set_def)
    next
      case other: False
      show ?thesis
      proof (cases "interaction e = Reset")
        case True
        with assms(4) have b by simp
        then have "slot_allowed b (is_multi (ps ! nat (index e))) v"
          if "v = JList [] \<or> v = JNull" for v
          using that by (auto simp: slot_allowed_def)
        then have "slots_allowed b ps ((valueList_now w)[nat (index e) := v])"
          if "v = JList [] \<or> v = JNull" for v
          using that slots_allowed_update [OF assms(2) i] by blast
        with True False i len assms(1) show ?thesis
          by (simp add: valueList_now_step js_array_set_def)
      next
        case False
        with other assms(1,2) show ?thesis
          by (simp add: valueList_now_step)
      qed
    qed
  qed
qed

lemma slots_allowed_run:
  assumes "wf_world w" and "slots_allowed b ps (valueList_now w)"
    and "\<forall>e \<in> set es. event_shaped ps e"
    and "b \<or> (\<forall>e \<in> set es. interaction e \<noteq> Reset)"
  shows "slots_allowed b ps (valueList_now (fold streamlitReturnGlobalFn es w))"
  using assms
proof (induction es arbitrary: w)
  case Nil
  then show ?case by simp
next
  case (Cons e es)
  let ?w = "streamlitReturnGlobalFn e w"
  have 1: "wf_world ?w" using Cons.prems(1) by (rule wf_world_step)
  have 2: "slots_allowed b ps (valueList_now ?w)"
    using Cons.prems by (intro slots_allowed_step) auto
  have 3: "\<forall>e \<in> set es. event_shaped ps e" using Cons.prems(3) by simp
  have 4: "b \<or> (\<forall>e \<in> set es. interaction e \<noteq> Reset)" using Cons.prems(4) by auto
  from Cons.IH [OF 1 2 3 4] show ?case by simp
qed

lemma slots_allowed_init:
  "defaults_shaped ps \<Longrightarrow> slots_allowed False ps (valueList_now (SearchBoxFn_init ps))"
  by (simp add: valueList_now_init slots_allowed_def defaults_shaped_def list_all2_map2
      list_all2_same list_all_iff)

text \<open>
  A submit event that a controller emits for a selection as the select control delivers
  it carries a value of the shape of its instance.
\<close>

lemma callbackSubmit_event_shaped:
  assumes "delivered (is_multi (ps ! i)) option" and "i < length ps"
    and "callbackSubmit (ps ! i) option c = Inr c'"
  shows "event_shaped ps (SearchBoxFnRenderer_return i (last (emitted c')))"
proof -
  obtain v where v: "submit_value (is_multi (ps ! i)) option = Inr v"
    and e: "emitted c' = emitted c @ [(Submit, v)]"
    using assms(3)
    by (auto simp: callbackSubmit_def streamlitReturnFn_def Let_def split: sum.splits)
  have "shape_matches (is_multi (ps ! i)) v"
    using assms(1) v by (cases "is_multi (ps ! i)"; cases option) auto
  with e assms(2) show ?thesis
    by (simp add: event_shaped_def SearchBoxFnRenderer_return_def)
qed

text \<open>
  Claim C4, as the code has it. Let the defaults be absent, \<open>null\<close> or of the shape of
  their instance, and let the submit and simple-value events carry a value of the shape of
  the instance that emits them. Then after every event processed by the Aggregator, each
  slot of the value list has the shape that goes with the multiplicity flag of its
  instance (a string for single-select, a list of strings for multi-select), or is
  \<open>null\<close>, or is the empty list; and as long as no reset event has been processed, each
  slot has the shape of its instance or is \<open>null\<close>.
\<close>

theorem slot_shape_invariant:
  assumes "defaults_shaped ps" and "\<forall>e \<in> set es. event_shaped ps e"
  shows "slots_allowed True ps
           (valueList_now (fold streamlitReturnGlobalFn es (SearchBoxFn_init ps))) \<and>
         ((\<forall>e \<in> set es. interaction e \<noteq> Reset) \<longrightarrow>
            slots_allowed False ps
              (valueList_now (fold streamlitReturnGlobalFn es (SearchBoxFn_init ps))))"
proof -
  have init: "slots_allowed False ps (valueList_now (SearchBoxFn_init ps))"
    using assms(1) by (rule slots_allowed_init)
  have "slots_allowed True ps
          (valueList_now (fold streamlitReturnGlobalFn es (SearchBoxFn_init ps)))"
    using wf_world_init slot_allowed_weaken [OF init] assms(2)
    by (rule slots_allowed_run) simp
  moreover have "slots_allowed False ps
          (valueList_now (fold streamlitReturnGlobalFn es (SearchBoxFn_init ps)))"
    if "\<forall>e \<in> set es. interaction e \<noteq> Reset"
    using wf_world_init init assms(2)
    by (rule slots_allowed_run) (simp add: that)
  ultimately show ?thesis by blast
qed

theorem slot_shape_invariant_witness:
  "slots_allowed True [sample_single, sample_multi]
     (valueList_now (fold streamlitReturnGlobalFn
        [sample_event Submit (JStr ''Bar'') 0, sample_event Submit (JList [''Bar'', ''Baz'']) 1,
         sample_event Reset (JStr []) 0, sample_event Search (JStr ''a'') 1]
        (SearchBoxFn_init [sample_single, sample_multi]))) \<and>
   slots_allowed False [sample_single, sample_multi]
     (valueList_now (fold streamlitReturnGlobalFn
        [sample_event Submit (JStr ''Bar'') 0, sample_event Search (JStr ''a'') 1,
         sample_event HeaderClick JUndefined (- 1)]
        (SearchBoxFn_init [sample_single, sample_multi])))"
proof -
  have d: "defaults_shaped [sample_single, sample_multi]"
    by (simp add: defaults_shaped_def slot_allowed_def sample_single_def sample_multi_def)
  have e1: "\<forall>e \<in> set [sample_event Submit (JStr ''Bar'') 0,
        sample_event Submit (JList [''Bar'', ''Baz'']) 1,
        sample_event Reset (JStr []) 0, sample_event Search (JStr ''a'') 1].
      event_shaped [sample_single, sample_multi] e"
    by (simp add: event_shaped_def sample_event_def sample_single_def sample_multi_def)
  have e2: "\<forall>e \<in> set [sample_event Submit (JStr ''Bar'') 0, sample_event Search (JStr ''a'') 1,
        sample_event HeaderClick JUndefined (- 1)].
      event_shaped [sample_single, sample_multi] e"
    by (simp add: event_shaped_def sample_event_def sample_single_def sample_multi_def)
  have n: "\<forall>e \<in> set [sample_event Submit (JStr ''Bar'') 0, sample_event Search (JStr ''a'') 1,
        sample_event HeaderClick JUndefined (- 1)]. interaction e \<noteq> Reset"
    by (simp add: sample_event_def)
  show ?thesis
    using slot_shape_invariant [OF d e1] slot_shape_invariant [OF d e2] n by blast
qed

subsection \<open>Debounce\<close>

text \<open>
  One closure of \<open>callbackSearch\<close> called twice, at 0 and at 95 ms with a debounce
  interval of 100 ms: the second call finds the timer of the first older than
  \<open>debounce - 10\<close>, cancels it and sets a new one, which alone fires, with the latest text.
  Called at 0 and at 50 ms, the second call keeps the timer of the first.
\<close>

lemma callbackSearch_cancels_and_keeps:
  "timers (callbackSearch 0 ''ab'' 100 95 (callbackSearch 0 ''a'' 100 0 (Controller_init idle)))
     = [\<lparr>handle = 1, due = 195, cell = 0\<rparr>] \<and>
   emitted (fire_due 1000
      (callbackSearch 0 ''ab'' 100 95 (callbackSearch 0 ''a'' 100 0 (Controller_init idle))))
     = [(Search, JStr ''ab'')] \<and>
   timers (callbackSearch 0 ''ab'' 100 50 (callbackSearch 0 ''a'' 100 0 (Controller_init idle)))
     = [\<lparr>handle = 0, due = 100, cell = 0\<rparr>] \<and>
   emitted (fire_due 1000
      (callbackSearch 0 ''ab'' 100 50 (callbackSearch 0 ''a'' 100 0 (Controller_init idle))))
     = [(Search, JStr ''ab'')]"
  by (simp add: idle_def Controller_init_def fire_due_def callbackSearch_def new_timeout_def
      set_timeout_def timer_delay_def clear_timeout_def search_timer_fires_def
      streamlitReturnFn_def ref_current_def Let_def)

text \<open>
  Claim C2. With a debounce interval of 100 ms, the keystrokes \<open>a\<close> at 0 ms, \<open>ab\<close> at
  50 ms and \<open>abc\<close> at 90 ms are each less than 100 ms after the one before. The component
  is rendered again after each of them, every keystroke finds an empty ref and sets its
  own timer, and three search events fire, one for each keystroke with its own text, where
  the claim has exactly one, with the text \<open>abc\<close>.
\<close>

theorem keystrokes_each_fire_a_search:
  "debounce sample_single = 100 \<and>
   gaps_below 100 [(0, ''a''), (50, ''ab''), (90, ''abc'')] \<and>
   emitted (fire_due 1000
      (type_keys_rendered sample_single 0 [(0, ''a''), (50, ''ab''), (90, ''abc'')]
         (Controller_init idle))) =
     [(Search, JStr ''a''), (Search, JStr ''ab''), (Search, JStr ''abc'')] \<and>
   timers (type_keys_rendered sample_single 0 [(0, ''a''), (50, ''ab''), (90, ''abc'')]
         (Controller_init idle)) =
     [\<lparr>handle = 0, due = 100, cell = 0\<rparr>, \<lparr>handle = 1, due = 150, cell = 1\<rparr>,
      \<lparr>handle = 2, due = 190, cell = 2\<rparr>]"
  by (simp add: sample_single_def idle_def Controller_init_def fire_due_def
      onSelectInputChange_def callbackSearch_def new_timeout_def set_timeout_def
      timer_delay_def clear_timeout_def search_timer_fires_def streamlitReturnFn_def
      ref_current_def createRef_def Let_def)

end
